theory Spec2Isabelle
  imports Main "HOL-Library.AList"
begin

text \<open>
  A model of the axios token-refresh plugin (\<^verbatim>\<open>createRefreshTokenPlugin\<close> in
  \<^verbatim>\<open>src/index.js\<close>, the version with the renewal timeout and the header formatter).
  The plugin installs a response interceptor. When a call fails for want of a valid
  token, the interceptor queues the request, starts one token renewal for all queued
  requests, and re-issues them with the new token when the renewal resolves, or rejects
  them when it fails or times out.

  JavaScript runs the interceptor on one thread, so the model is a state machine: one
  transition runs the handler for a failed call up to its \<^verbatim>\<open>await\<close> or its \<^verbatim>\<open>return\<close>,
  another runs the rest of a suspended handler when its race settles. The state holds
  the closure's variables and a record of what the plugin did to its surroundings: the
  observer calls, the renewal calls, and the calls of each promise's \<^verbatim>\<open>resolve\<close> and
  \<^verbatim>\<open>reject\<close>.
\<close>

section \<open>JavaScript values that the plugin handles\<close>

text \<open>
  An \<^verbatim>\<open>Error\<close> object has a message and, for the errors the plugin builds itself, an
  \<^verbatim>\<open>originalError\<close> property, which may hold any value. A thrown or rejected value is
  either an \<^verbatim>\<open>Error\<close> instance or some other value (a string, a plain object, ...):
  the plugin tells the two apart with \<^verbatim>\<open>instanceof Error\<close>.
\<close>

datatype jserror = JsError (message: string) (originalError: "jsvalue option")
and jsvalue = ErrorObject jserror | OtherValue string

text \<open>
  \<^verbatim>\<open>refreshError instanceof Error ? refreshError : new Error(msg)\<close>
\<close>

fun instanceofErrorOr :: "jsvalue \<Rightarrow> string \<Rightarrow> jserror" where
  "instanceofErrorOr (ErrorObject e) msg = e"
| "instanceofErrorOr (OtherValue v) msg = JsError msg None"

text \<open>
  A token is \<^verbatim>\<open>string | null\<close>; \<^verbatim>\<open>!!token\<close> and \<^verbatim>\<open>if (token)\<close> are false for
  \<^verbatim>\<open>null\<close> and for the empty string.
\<close>

fun truthy :: "string option \<Rightarrow> bool" where
  "truthy None = False"
| "truthy (Some t) = (t \<noteq> [])"

text \<open>
  An argument of any JavaScript type, as far as \<^verbatim>\<open>typeof x !== "function"\<close> sees it:
  \<^verbatim>\<open>typeof x\<close> is \<^verbatim>\<open>"function"\<close> exactly for \<open>JsFunction f\<close>.
\<close>

datatype 'f jsarg = JsFunction 'f | JsUndefined | JsNull | JsString string | JsNumber int

section \<open>Requests and failures of the transport\<close>

text \<open>
  The request description (\<^verbatim>\<open>error.config\<close>): its headers and the \<^verbatim>\<open>_retry\<close> mark that
  the interceptor sets. The headers object is an association list, assigned with
  \<^const>\<open>AList.update\<close> and read with \<^const>\<open>map_of\<close>; it is \<open>None\<close> when the
  request has no \<^verbatim>\<open>headers\<close> property, and an assignment to one of its properties then
  throws a \<^verbatim>\<open>TypeError\<close>.
\<close>

record request =
  url :: string
  headers :: "(string \<times> string) list option"
  retry :: bool

record response =
  status :: int

record axios_error =
  config :: "request option"
  response :: "response option"

section \<open>The options and the closure of \<^verbatim>\<open>createRefreshTokenPlugin\<close>\<close>

type_synonym refreshTokenFn_t = "unit \<Rightarrow> jsvalue + unit"
type_synonym getAuthToken_t = "unit \<Rightarrow> jsvalue + string option"
type_synonym shouldRefreshToken_t = "axios_error \<Rightarrow> request \<Rightarrow> jsvalue + bool"
type_synonym onStatusChange_t = "string \<Rightarrow> jserror option \<Rightarrow> jsvalue option"
type_synonym authHeaderFormatter_t = "string \<Rightarrow> jsvalue + string"

text \<open>
  The options object as the caller passes it. The two required options may be of any
  type; an optional one is \<open>None\<close> when the caller leaves it out.

  A caller-supplied function may throw: calling it yields \<open>Inl v\<close> (or \<open>Some v\<close> for the
  observer, which returns nothing) when it throws \<open>v\<close>.
  \<^verbatim>\<open>refreshTokenFn()\<close> either throws synchronously or returns a promise (\<open>Inr ()\<close>); how
  that promise settles is an event of the run (see \<open>event\<close> below).
\<close>

record options =
  options_refreshTokenFn :: "refreshTokenFn_t jsarg"
  options_getAuthToken :: "getAuthToken_t jsarg"
  options_shouldRefreshToken :: "shouldRefreshToken_t option"
  options_onStatusChange :: "onStatusChange_t option"
  options_authHeaderFormatter :: "authHeaderFormatter_t option"
  options_refreshTimeout :: "nat option"

text \<open>The destructured parameters, with the defaults filled in: the closure's variables.\<close>

record plugin =
  refreshTokenFn :: refreshTokenFn_t
  getAuthToken :: getAuthToken_t
  shouldRefreshToken :: shouldRefreshToken_t
  onStatusChange :: onStatusChange_t
  authHeaderFormatter :: authHeaderFormatter_t
  refreshTimeout :: nat

text \<open>
  The default classifier:
  \<^verbatim>\<open>
  const statusCode = error?.response ? error.response.status : "Network Error";
  return (statusCode === 401 || statusCode === "Network Error") && !!getAuthToken();
  \<close>
  \<^verbatim>\<open>&&\<close> calls \<^verbatim>\<open>getAuthToken\<close> only when its left side is true.
\<close>

definition default_shouldRefreshToken :: "getAuthToken_t \<Rightarrow> shouldRefreshToken_t" where
  "default_shouldRefreshToken getAuthToken_f error originalRequest =
     (let is401_or_network =
            (case response error of Some r \<Rightarrow> status r = 401 | None \<Rightarrow> True)
      in if is401_or_network
         then (case getAuthToken_f () of
                 Inl thrown \<Rightarrow> Inl thrown
               | Inr token \<Rightarrow> Inr (truthy token))
         else Inr False)"

text \<open>The default observer writes to the console and returns.\<close>

definition default_onStatusChange :: onStatusChange_t where
  "default_onStatusChange st err = None"

definition default_authHeaderFormatter :: authHeaderFormatter_t where
  "default_authHeaderFormatter token = Inr (''Bearer '' @ token)"

definition default_refreshTimeout :: nat where
  "default_refreshTimeout = 10000"

section \<open>The coordination state\<close>

text \<open>
  An entry of \<^verbatim>\<open>pendingRequests\<close>: the request and the \<^verbatim>\<open>resolve\<close>/\<^verbatim>\<open>reject\<close> pair of the
  promise created for it, named by the number of that promise.
\<close>

record pending =
  request :: request
  retryPromise :: nat

text \<open>
  A call of an entry's \<^verbatim>\<open>resolve\<close> or \<^verbatim>\<open>reject\<close>. \<^verbatim>\<open>resolve(axios(request))\<close> re-issues the
  request as it is at that moment and resolves the promise with the transport's promise
  for it; \<^verbatim>\<open>reject(e)\<close> is always given an \<^verbatim>\<open>Error\<close>.
\<close>

datatype settlement = Resolve request | Reject jserror

text \<open>
  The closure's three variables (\<^verbatim>\<open>pendingRequests\<close>, \<^verbatim>\<open>isRefreshing\<close>,
  \<^verbatim>\<open>refreshPromise\<close>) and what the plugin has done to the world around it:
  \<^item> \<open>promises\<close>: how many retry promises have been created (the next one's number);
  \<^item> \<open>awaiting\<close>: the handler invocations suspended at \<^verbatim>\<open>await refreshPromise\<close>, each
    with its own \<^verbatim>\<open>error\<close> and the number of its own \<^verbatim>\<open>retryPromise\<close>;
  \<^item> \<open>refreshCalls\<close>: how many times \<^verbatim>\<open>refreshTokenFn\<close> has been invoked;
  \<^item> \<open>statusLog\<close>: the calls of \<^verbatim>\<open>onStatusChange\<close>, in order;
  \<^item> \<open>settlements\<close>: the calls of \<^verbatim>\<open>resolve\<close> and \<^verbatim>\<open>reject\<close>, in order.
\<close>

record coordinator =
  pendingRequests :: "pending list"
  isRefreshing :: bool
  refreshPromise :: "nat option"
  promises :: nat
  awaiting :: "(axios_error \<times> nat) list"
  refreshCalls :: nat
  statusLog :: "(string \<times> jserror option) list"
  settlements :: "(nat \<times> settlement) list"

definition initial :: coordinator where
  "initial = \<lparr> pendingRequests = [], isRefreshing = False, refreshPromise = None,
               promises = 0, awaiting = [], refreshCalls = 0, statusLog = [],
               settlements = [] \<rparr>"

text \<open>
  \<^verbatim>\<open>createRefreshTokenPlugin\<close> up to its \<^verbatim>\<open>return (axios) => ...\<close>: the two checks, each
  throwing an \<^verbatim>\<open>Error\<close>, then the closure's state. Nothing is installed on the transport
  before the returned function is applied.
\<close>

definition createRefreshTokenPlugin :: "options \<Rightarrow> jserror + plugin \<times> coordinator" where
  "createRefreshTokenPlugin opts =
     (case options_refreshTokenFn opts of
        JsFunction refreshTokenFn_f \<Rightarrow>
          (case options_getAuthToken opts of
             JsFunction getAuthToken_f \<Rightarrow>
               Inr (\<lparr> refreshTokenFn = refreshTokenFn_f,
                      getAuthToken = getAuthToken_f,
                      shouldRefreshToken =
                        (case options_shouldRefreshToken opts of
                           None \<Rightarrow> default_shouldRefreshToken getAuthToken_f
                         | Some f \<Rightarrow> f),
                      onStatusChange =
                        (case options_onStatusChange opts of
                           None \<Rightarrow> default_onStatusChange
                         | Some f \<Rightarrow> f),
                      authHeaderFormatter =
                        (case options_authHeaderFormatter opts of
                           None \<Rightarrow> default_authHeaderFormatter
                         | Some f \<Rightarrow> f),
                      refreshTimeout =
                        (case options_refreshTimeout opts of
                           None \<Rightarrow> default_refreshTimeout
                         | Some n \<Rightarrow> n) \<rparr>,
                    initial)
           | _ \<Rightarrow> Inl (JsError ''getAuthToken must be a function'' None))
      | _ \<Rightarrow> Inl (JsError ''refreshTokenFn must be a function'' None))"

text \<open>What one run of the handler does with the promise it returns.\<close>

datatype result =
    RejectOriginal axios_error  \<comment> \<open>\<^verbatim>\<open>return Promise.reject(error)\<close>\<close>
  | ReturnRetryPromise nat      \<comment> \<open>\<^verbatim>\<open>return retryPromise\<close>\<close>
  | Suspended                   \<comment> \<open>stopped at \<^verbatim>\<open>await refreshPromise\<close>\<close>
  | Throws jsvalue              \<comment> \<open>an exception leaves the handler\<close>
  | Ignored                     \<comment> \<open>an event for a race that nobody awaits\<close>

text \<open>What \<^verbatim>\<open>Promise.race([refreshTokenFn(), timeoutPromise])\<close> settles with.\<close>

datatype race_outcome = Fulfilled "string option" | RejectedWith jsvalue

section \<open>The response interceptor\<close>

text \<open>
  The function that \<^verbatim>\<open>createRefreshTokenPlugin\<close> returns is applied to an axios instance;
  the handler re-issues a request by calling that instance, \<^verbatim>\<open>axios(request)\<close>. The call
  either throws synchronously (\<open>Inl v\<close>) or returns the promise of the new call
  (\<open>Inr ()\<close>).
\<close>

type_synonym axios_t = "request \<Rightarrow> jsvalue + unit"

text \<open>\<^verbatim>\<open>onStatusChange(status, error)\<close>: the call is recorded, and it may throw.\<close>

definition notify ::
  "plugin \<Rightarrow> string \<Rightarrow> jserror option \<Rightarrow> coordinator \<Rightarrow> jsvalue option \<times> coordinator" where
  "notify p st err c = (onStatusChange p st err, c\<lparr>statusLog := statusLog c @ [(st, err)]\<rparr>)"

text \<open>
  \<^verbatim>\<open>request.headers["Authorization"] = authHeaderFormatter(newToken)\<close>: the engine calls
  the formatter first and then assigns, which throws a \<^verbatim>\<open>TypeError\<close> when the request has
  no headers object (the message is the engine's; V8's is used here, without its quotes).
  The assignment changes the request object itself.
\<close>

definition headersTypeError :: jsvalue where
  "headersTypeError =
     ErrorObject (JsError ''Cannot set properties of undefined (setting Authorization)'' None)"

definition setAuthorization :: "plugin \<Rightarrow> string \<Rightarrow> request \<Rightarrow> jsvalue + request" where
  "setAuthorization p token req =
     (case authHeaderFormatter p token of
        Inl thrown \<Rightarrow> Inl thrown
      | Inr v \<Rightarrow>
          (case headers req of
             None \<Rightarrow> Inl headersTypeError
           | Some hs \<Rightarrow> Inr (req\<lparr>headers := Some (AList.update ''Authorization'' v hs)\<rparr>)))"

text \<open>\<^verbatim>\<open>if (newToken) { request.headers["Authorization"] = ...; }\<close>\<close>

definition withNewToken :: "plugin \<Rightarrow> string option \<Rightarrow> request \<Rightarrow> jsvalue + request" where
  "withNewToken p newToken req =
     (case newToken of
        None \<Rightarrow> Inr req
      | Some t \<Rightarrow> if truthy (Some t) then setAuthorization p t req else Inr req)"

text \<open>
  \<^verbatim>\<open>
  pendingRequests.forEach(({ request, resolve }) => {
    if (newToken) { request.headers["Authorization"] = authHeaderFormatter(newToken); }
    resolve(axios(request));
  });
  \<close>
  The loop stops at the first exception, of the formatter, of the assignment or of
  \<^verbatim>\<open>axios(request)\<close>. It yields the entries as the loop leaves them (the requests it
  reached carry the new header), the calls of \<^verbatim>\<open>resolve\<close> it made, and the exception, if
  any.
\<close>

fun resolveEach ::
  "plugin \<Rightarrow> axios_t \<Rightarrow> string option \<Rightarrow> pending list
     \<Rightarrow> pending list \<times> (nat \<times> settlement) list \<times> jsvalue option" where
  "resolveEach p axios newToken [] = ([], [], None)"
| "resolveEach p axios newToken (w # ws) =
     (case withNewToken p newToken (request w) of
        Inl thrown \<Rightarrow> (w # ws, [], Some thrown)
      | Inr req \<Rightarrow>
          (case axios req of
             Inl thrown \<Rightarrow> (w\<lparr>request := req\<rparr> # ws, [], Some thrown)
           | Inr _ \<Rightarrow>
               (case resolveEach p axios newToken ws of
                  (ws', resolved, thrown) \<Rightarrow>
                    (w\<lparr>request := req\<rparr> # ws',
                     (retryPromise w, Resolve req) # resolved,
                     thrown))))"

text \<open>\<^verbatim>\<open>pendingRequests.forEach(({ reject }) => { reject(e); })\<close>\<close>

fun rejectEach :: "jserror \<Rightarrow> pending list \<Rightarrow> (nat \<times> settlement) list" where
  "rejectEach e [] = []"
| "rejectEach e (w # ws) = (retryPromise w, Reject e) # rejectEach e ws"

text \<open>
  The handler's outer \<^verbatim>\<open>catch (interceptorError)\<close> block and the
  \<^verbatim>\<open>return Promise.reject(error)\<close> after it. The observer is called first: when it throws
  here, the exception leaves the handler and the lines after the call do not run.
\<close>

definition interceptorCatch ::
  "plugin \<Rightarrow> axios_error \<Rightarrow> jsvalue \<Rightarrow> coordinator \<Rightarrow> result \<times> coordinator" where
  "interceptorCatch p error interceptorError c =
     (let err = instanceofErrorOr interceptorError ''Unknown error in refresh token interceptor''
      in if isRefreshing c
         then (case notify p ''error'' (Some err) c of
                 (Some thrown, c1) \<Rightarrow> (Throws thrown, c1)
               | (None, c1) \<Rightarrow>
                   (RejectOriginal error,
                    c1\<lparr> settlements := settlements c1 @ rejectEach err (pendingRequests c1),
                        pendingRequests := [],
                        isRefreshing := False,
                        refreshPromise := None \<rparr>))
         else (RejectOriginal error, c))"


text \<open>
  The handler from its entry to \<^verbatim>\<open>await refreshPromise\<close> (for the call that starts the
  renewal) or to its \<^verbatim>\<open>return\<close> (for every other call).
  \<^item> \<open>eligible\<close> is the handler's admission test: \<^verbatim>\<open>originalRequest\<close> exists and
    \<^verbatim>\<open>shouldRefreshToken(error, originalRequest) && !originalRequest._retry\<close> is true.
  \<^item> \<open>newPending\<close> is the entry pushed for an admitted request, after
    \<^verbatim>\<open>originalRequest._retry = true\<close>. That assignment writes to the object that
    \<^verbatim>\<open>error.config\<close> refers to, so the error seen afterwards carries the mark.
\<close>

definition eligible :: "plugin \<Rightarrow> axios_error \<Rightarrow> bool" where
  "eligible p error =
     (case config error of
        None \<Rightarrow> False
      | Some originalRequest \<Rightarrow>
          shouldRefreshToken p error originalRequest = Inr True \<and> \<not> retry originalRequest)"

definition newPending :: "request \<Rightarrow> nat \<Rightarrow> pending" where
  "newPending originalRequest own =
     \<lparr>request = originalRequest\<lparr>retry := True\<rparr>, retryPromise = own\<rparr>"

definition onRejected :: "plugin \<Rightarrow> axios_error \<Rightarrow> coordinator \<Rightarrow> result \<times> coordinator" where
  "onRejected p error c =
     (case config error of
        None \<Rightarrow> (RejectOriginal error, c)
      | Some originalRequest \<Rightarrow>
          (case shouldRefreshToken p error originalRequest of
             Inl thrown \<Rightarrow> interceptorCatch p error thrown c
           | Inr should \<Rightarrow>
               if should \<and> \<not> retry originalRequest
               then
                 (let own = promises c;
                      entry = newPending originalRequest own;
                      error1 = error\<lparr>config := Some (request entry)\<rparr>;
                      c1 = c\<lparr> promises := Suc own,
                              pendingRequests := pendingRequests c @ [entry] \<rparr>
                  in if \<not> isRefreshing c1
                     then
                       (case notify p ''refreshing'' None (c1\<lparr>isRefreshing := True\<rparr>) of
                          (Some thrown, c2) \<Rightarrow> interceptorCatch p error1 thrown c2
                        | (None, c2) \<Rightarrow>
                            (let c3 = c2\<lparr>refreshCalls := Suc (refreshCalls c2)\<rparr>
                             in case refreshTokenFn p () of
                                  Inl thrown \<Rightarrow> interceptorCatch p error1 thrown c3
                                | Inr _ \<Rightarrow>
                                    (Suspended,
                                     c3\<lparr> refreshPromise := Some (refreshCalls c2),
                                         awaiting := awaiting c3 @ [(error1, own)] \<rparr>)))
                     else (ReturnRetryPromise own, c1))
               else (RejectOriginal error, c)))"

text \<open>
  The inner \<^verbatim>\<open>catch (refreshError)\<close> block. It yields the exception that leaves it, if
  any: the observer's.
\<close>

definition refreshCatch ::
  "plugin \<Rightarrow> jsvalue \<Rightarrow> coordinator \<Rightarrow> jsvalue option \<times> coordinator" where
  "refreshCatch p refreshError c =
     (let err = instanceofErrorOr refreshError ''Token refresh failed''
      in case notify p ''failed'' (Some err) c of
           (Some thrown, c1) \<Rightarrow> (Some thrown, c1)
         | (None, c1) \<Rightarrow>
             (None,
              c1\<lparr> settlements := settlements c1
                    @ rejectEach (JsError ''Token refresh failed'' (Some (ErrorObject err)))
                        (pendingRequests c1),
                  pendingRequests := [] \<rparr>))"

text \<open>
  The inner \<^verbatim>\<open>try\<close> from the point where \<^verbatim>\<open>await refreshPromise\<close> gives its outcome,
  with its \<^verbatim>\<open>catch\<close>: a rejection of the race, an exception of the \<^verbatim>\<open>success\<close>
  notification and an exception in the loop all go to \<^const>\<open>refreshCatch\<close>. After an
  exception in the loop the wait set has not been cleared, so the \<^verbatim>\<open>catch\<close> block calls
  \<^verbatim>\<open>reject\<close> for every entry, also for those whose \<^verbatim>\<open>resolve\<close> the loop has called.
\<close>

definition refreshTry ::
  "plugin \<Rightarrow> axios_t \<Rightarrow> race_outcome \<Rightarrow> coordinator \<Rightarrow> jsvalue option \<times> coordinator" where
  "refreshTry p axios outcome c =
     (case outcome of
        RejectedWith refreshError \<Rightarrow> refreshCatch p refreshError c
      | Fulfilled newToken \<Rightarrow>
          (case notify p ''success'' None c of
             (Some thrown, c1) \<Rightarrow> refreshCatch p thrown c1
           | (None, c1) \<Rightarrow>
               (case resolveEach p axios newToken (pendingRequests c1) of
                  (ws, resolved, None) \<Rightarrow>
                    (None,
                     c1\<lparr> settlements := settlements c1 @ resolved,
                         pendingRequests := [] \<rparr>)
                | (ws, resolved, Some thrown) \<Rightarrow>
                    refreshCatch p thrown
                      (c1\<lparr> settlements := settlements c1 @ resolved,
                          pendingRequests := ws \<rparr>))))"

text \<open>
  \<^verbatim>\<open>error.config\<close> and the \<^verbatim>\<open>request\<close> of the handler's own entry are one object. The
  error that a resumed handler hands back shows that object as the wait set holds it
  then; when the entry is gone, the object is as the handler left it.
\<close>

definition currentError :: "axios_error \<Rightarrow> nat \<Rightarrow> pending list \<Rightarrow> axios_error" where
  "currentError error own ws =
     (case find (\<lambda>w. retryPromise w = own) ws of
        None \<Rightarrow> error
      | Some w \<Rightarrow> error\<lparr>config := Some (request w)\<rparr>)"

text \<open>
  The rest of the suspended handler: the inner \<^verbatim>\<open>try\<close>/\<^verbatim>\<open>catch\<close>, its \<^verbatim>\<open>finally\<close>, then
  \<^verbatim>\<open>return retryPromise\<close>, or the outer \<^verbatim>\<open>catch\<close> when an exception left the inner one.
\<close>

definition resume ::
  "plugin \<Rightarrow> axios_t \<Rightarrow> axios_error \<times> nat \<Rightarrow> race_outcome \<Rightarrow> coordinator
     \<Rightarrow> result \<times> coordinator" where
  "resume p axios fr outcome c =
     (case refreshTry p axios outcome c of
        (thrown, c1) \<Rightarrow>
          (let c2 = c1\<lparr>isRefreshing := False, refreshPromise := None\<rparr>
           in case thrown of
                None \<Rightarrow> (ReturnRetryPromise (snd fr), c2)
              | Some v \<Rightarrow>
                  interceptorCatch p (currentError (fst fr) (snd fr) (pendingRequests c2)) v c2))"

section \<open>Runs\<close>

text \<open>
  The plugin runs on one thread: a run is a sequence of events, each handled to the end
  (or to the \<^verbatim>\<open>await\<close>) before the next. A failed call enters the handler; the race of
  the \<open>k\<close>-th suspended handler settles because its renewal resolves or rejects, or
  because its timer fires, which rejects with \<^verbatim>\<open>new Error("Token refresh timeout")\<close>.
  Which of the three happens, and when, is the environment's choice.
\<close>

datatype event =
    RequestFailed axios_error
  | RenewalResolved nat "string option"
  | RenewalRejected nat jsvalue
  | TimeoutFired nat

definition settleRace ::
  "plugin \<Rightarrow> axios_t \<Rightarrow> nat \<Rightarrow> race_outcome \<Rightarrow> coordinator \<Rightarrow> result \<times> coordinator" where
  "settleRace p axios k outcome c =
     (if k < length (awaiting c)
      then resume p axios (awaiting c ! k) outcome
             (c\<lparr>awaiting := take k (awaiting c) @ drop (Suc k) (awaiting c)\<rparr>)
      else (Ignored, c))"

fun step :: "plugin \<Rightarrow> axios_t \<Rightarrow> event \<Rightarrow> coordinator \<Rightarrow> result \<times> coordinator" where
  "step p axios (RequestFailed error) c = onRejected p error c"
| "step p axios (RenewalResolved k newToken) c = settleRace p axios k (Fulfilled newToken) c"
| "step p axios (RenewalRejected k v) c = settleRace p axios k (RejectedWith v) c"
| "step p axios (TimeoutFired k) c =
     settleRace p axios k
       (RejectedWith (ErrorObject (JsError ''Token refresh timeout'' None))) c"

fun run :: "plugin \<Rightarrow> axios_t \<Rightarrow> event list \<Rightarrow> coordinator \<Rightarrow> coordinator" where
  "run p axios [] c = c"
| "run p axios (ev # evs) c = run p axios evs (snd (step p axios ev c))"

text \<open>The results of the handler's runs, in the order of the events.\<close>

fun results :: "plugin \<Rightarrow> axios_t \<Rightarrow> event list \<Rightarrow> coordinator \<Rightarrow> result list" where
  "results p axios [] c = []"
| "results p axios (ev # evs) c =
     fst (step p axios ev c) # results p axios evs (snd (step p axios ev c))"

text \<open>
  The state of a promise is decided by the first call of its \<^verbatim>\<open>resolve\<close> or \<^verbatim>\<open>reject\<close>;
  later calls do nothing. \<open>None\<close>: the promise is still pending.
\<close>

definition settled :: "coordinator \<Rightarrow> nat \<Rightarrow> settlement option" where
  "settled c i = map_of (settlements c) i"

section \<open>Example inputs\<close>

text \<open>
  A caller that passes only the two required options: the renewal function returns a
  promise, and the accessor returns the token \<^verbatim>\<open>"old"\<close>.
\<close>

definition example_options :: options where
  "example_options =
     \<lparr> options_refreshTokenFn = JsFunction (\<lambda>_. Inr ()),
       options_getAuthToken = JsFunction (\<lambda>_. Inr (Some ''old'')),
       options_shouldRefreshToken = None,
       options_onStatusChange = None,
       options_authHeaderFormatter = None,
       options_refreshTimeout = None \<rparr>"

definition example_plugin :: plugin where
  "example_plugin =
     \<lparr> refreshTokenFn = (\<lambda>_. Inr ()),
       getAuthToken = (\<lambda>_. Inr (Some ''old'')),
       shouldRefreshToken = default_shouldRefreshToken (\<lambda>_. Inr (Some ''old'')),
       onStatusChange = default_onStatusChange,
       authHeaderFormatter = default_authHeaderFormatter,
       refreshTimeout = default_refreshTimeout \<rparr>"

text \<open>An observer that throws \<^verbatim>\<open>new Error("boom")\<close> when called with one given status.\<close>

definition throws_on :: "string \<Rightarrow> onStatusChange_t" where
  "throws_on s st err = (if st = s then Some (ErrorObject (JsError ''boom'' None)) else None)"

text \<open>An observer that throws \<^verbatim>\<open>new Error("boom")\<close> on every call.\<close>

definition throws_always :: onStatusChange_t where
  "throws_always st err = Some (ErrorObject (JsError ''boom'' None))"

text \<open>A request to a path, sent with the old token, and its failure with a status.\<close>

definition example_request :: "string \<Rightarrow> request" where
  "example_request u =
     \<lparr> url = u, headers = Some [(''Authorization'', ''Bearer old'')], retry = False \<rparr>"

text \<open>An axios instance whose call returns the promise of the new call.\<close>

definition example_axios :: axios_t where
  "example_axios req = Inr ()"

text \<open>An axios instance whose call throws for the requests to one path.\<close>

definition axios_throwing_for :: "string \<Rightarrow> axios_t" where
  "axios_throwing_for u req =
     (if url req = u then Inl (ErrorObject (JsError ''Invalid URL'' None)) else Inr ())"

definition example_failure :: "string \<Rightarrow> int \<Rightarrow> axios_error" where
  "example_failure u code =
     \<lparr> config = Some (example_request u), response = Some \<lparr> status = code \<rparr> \<rparr>"

section \<open>Basic facts about the handler\<close>

text \<open>
  Unfolding sets for evaluating the handler on the example inputs, the two loops, the
  handler before its \<^verbatim>\<open>await\<close>, the outer \<^verbatim>\<open>catch\<close> block, the suspended handler when its
  race settles, and runs of several events.
\<close>

lemmas example_defs =
  example_plugin_def example_failure_def example_request_def example_axios_def
  default_shouldRefreshToken_def default_onStatusChange_def default_authHeaderFormatter_def
  throws_on_def throws_always_def initial_def

lemmas handler_defs =
  onRejected_def interceptorCatch_def settleRace_def resume_def refreshTry_def refreshCatch_def
  notify_def newPending_def withNewToken_def setAuthorization_def currentError_def Let_def

lemma rejectEach_map: "rejectEach e ws = map (\<lambda>w. (retryPromise w, Reject e)) ws"
  by (induction ws) simp_all

lemma mem_rejectEach: "w \<in> set ws \<Longrightarrow> (retryPromise w, Reject e) \<in> set (rejectEach e ws)"
  by (induction ws) auto

lemma resolveEach_returns:
  assumes "\<forall>w \<in> set ws. \<exists>req. withNewToken p newToken (request w) = Inr req \<and> axios req = Inr ()"
  shows "resolveEach p axios newToken ws =
    (map (\<lambda>w. w\<lparr>request := projr (withNewToken p newToken (request w))\<rparr>) ws,
     map (\<lambda>w. (retryPromise w, Resolve (projr (withNewToken p newToken (request w))))) ws,
     None)"
  using assms by (induction ws) auto

lemma resolveEach_throws_first:
  assumes "withNewToken p newToken (request w) = Inl ex"
  shows "resolveEach p axios newToken (w # ws) = (w # ws, [], Some ex)"
  using assms by simp

lemma onRejected_initiator:
  assumes "eligible p error" and "\<not> isRefreshing c"
    and "onStatusChange p ''refreshing'' None = None"
    and "refreshTokenFn p () = Inr ()"
  shows "onRejected p error c =
    (Suspended,
     c\<lparr> promises := Suc (promises c),
        pendingRequests := pendingRequests c @ [newPending (the (config error)) (promises c)],
        isRefreshing := True,
        statusLog := statusLog c @ [(''refreshing'', None)],
        refreshCalls := Suc (refreshCalls c),
        refreshPromise := Some (refreshCalls c),
        awaiting := awaiting c
          @ [(error\<lparr>config := Some (request (newPending (the (config error)) (promises c)))\<rparr>,
              promises c)] \<rparr>)"
  using assms
  by (auto simp: onRejected_def eligible_def notify_def Let_def split: option.splits)

lemma onRejected_joiner:
  assumes "eligible p error" and "isRefreshing c"
  shows "onRejected p error c =
    (ReturnRetryPromise (promises c),
     c\<lparr> promises := Suc (promises c),
        pendingRequests := pendingRequests c @ [newPending (the (config error)) (promises c)] \<rparr>)"
  using assms
  by (auto simp: onRejected_def eligible_def Let_def split: option.splits)

lemma interceptorCatch_reset:
  assumes "isRefreshing c"
    and "onStatusChange p ''error''
           (Some (instanceofErrorOr ex ''Unknown error in refresh token interceptor'')) = None"
  shows "interceptorCatch p error ex c =
    (RejectOriginal error,
     c\<lparr> statusLog := statusLog c
          @ [(''error'', Some (instanceofErrorOr ex ''Unknown error in refresh token interceptor''))],
        settlements := settlements c
          @ rejectEach (instanceofErrorOr ex ''Unknown error in refresh token interceptor'')
              (pendingRequests c),
        pendingRequests := [],
        isRefreshing := False,
        refreshPromise := None \<rparr>)"
  using assms by (simp add: interceptorCatch_def notify_def Let_def)

lemma interceptorCatch_idle:
  "\<not> isRefreshing c \<Longrightarrow> interceptorCatch p error ex c = (RejectOriginal error, c)"
  by (simp add: interceptorCatch_def)

lemma settle_fulfilled:
  assumes "k < length (awaiting c)" and "onStatusChange p ''success'' None = None"
    and "\<forall>w \<in> set (pendingRequests c).
           \<exists>req. withNewToken p newToken (request w) = Inr req \<and> axios req = Inr ()"
  shows "settleRace p axios k (Fulfilled newToken) c =
    (ReturnRetryPromise (snd (awaiting c ! k)),
     c\<lparr> awaiting := take k (awaiting c) @ drop (Suc k) (awaiting c),
        statusLog := statusLog c @ [(''success'', None)],
        settlements := settlements c
          @ map (\<lambda>w. (retryPromise w, Resolve (projr (withNewToken p newToken (request w)))))
              (pendingRequests c),
        pendingRequests := [],
        isRefreshing := False,
        refreshPromise := None \<rparr>)"
  using assms(1,2)
  by (simp add: settleRace_def resume_def refreshTry_def notify_def resolveEach_returns [OF assms(3)])

lemma settle_rejected:
  assumes "k < length (awaiting c)"
    and "onStatusChange p ''failed'' (Some (instanceofErrorOr v ''Token refresh failed'')) = None"
  shows "settleRace p axios k (RejectedWith v) c =
    (ReturnRetryPromise (snd (awaiting c ! k)),
     c\<lparr> awaiting := take k (awaiting c) @ drop (Suc k) (awaiting c),
        statusLog := statusLog c
          @ [(''failed'', Some (instanceofErrorOr v ''Token refresh failed''))],
        settlements := settlements c
          @ rejectEach
              (JsError ''Token refresh failed''
                 (Some (ErrorObject (instanceofErrorOr v ''Token refresh failed''))))
              (pendingRequests c),
        pendingRequests := [],
        isRefreshing := False,
        refreshPromise := None \<rparr>)"
  using assms by (simp add: settleRace_def resume_def refreshTry_def refreshCatch_def notify_def Let_def)

lemma resume_clears_flag: "\<not> isRefreshing (snd (resume p axios fr outcome c))"
proof (cases "refreshTry p axios outcome c")
  case (Pair thrown c1)
  then show ?thesis
    by (cases thrown) (simp_all add: resume_def interceptorCatch_idle)
qed

lemma run_append: "run p axios (xs @ ys) c = run p axios ys (run p axios xs c)"
  by (induction xs arbitrary: c) simp_all

lemma run_snoc: "run p axios (xs @ [ev]) c = snd (step p axios ev (run p axios xs c))"
  by (simp add: run_append)

lemma run_snoc2:
  "run p axios (xs @ [ev, ev']) c
     = snd (step p axios ev' (snd (step p axios ev (run p axios xs c))))"
  by (simp add: run_append)

lemma run_joiners:
  assumes "isRefreshing c" and "\<forall>e \<in> set errors. eligible p e"
  shows "run p axios (map RequestFailed errors) c =
     c\<lparr> promises := promises c + length errors,
        pendingRequests := pendingRequests c
          @ map (\<lambda>(i, e). newPending (the (config e)) i) (enumerate (promises c) errors) \<rparr>"
  using assms
proof (induction errors arbitrary: c)
  case Nil
  then show ?case by simp
next
  case (Cons e es)
  then show ?case by (simp add: onRejected_joiner)
qed

lemma run_batch:
  assumes "\<not> isRefreshing c" and "errors \<noteq> []" and "\<forall>e \<in> set errors. eligible p e"
    and "onStatusChange p ''refreshing'' None = None"
    and "refreshTokenFn p () = Inr ()"
  shows "run p axios (map RequestFailed errors) c =
     c\<lparr> promises := promises c + length errors,
        pendingRequests := pendingRequests c
          @ map (\<lambda>(i, e). newPending (the (config e)) i) (enumerate (promises c) errors),
        isRefreshing := True,
        statusLog := statusLog c @ [(''refreshing'', None)],
        refreshCalls := Suc (refreshCalls c),
        refreshPromise := Some (refreshCalls c),
        awaiting := awaiting c
          @ [((hd errors)\<lparr>config :=
                 Some (request (newPending (the (config (hd errors))) (promises c)))\<rparr>,
              promises c)] \<rparr>"
proof (cases errors)
  case Nil
  with assms show ?thesis by simp
next
  case (Cons e es)
  with assms have e: "eligible p e" and es: "\<forall>x \<in> set es. eligible p x" by simp_all
  show ?thesis
    unfolding Cons
    by (simp add: onRejected_initiator [OF e assms(1) assms(4) assms(5)] run_joiners [OF _ es])
qed

lemma example_created: "createRefreshTokenPlugin example_options = Inr (example_plugin, initial)"
  by (simp add: createRefreshTokenPlugin_def example_options_def example_plugin_def)

lemma example_config: "config (example_failure u code) = Some (example_request u)"
  by (simp add: example_failure_def)

lemma example_eligible: "eligible example_plugin (example_failure u 401)"
  by (simp add: eligible_def example_plugin_def example_failure_def example_request_def
      default_shouldRefreshToken_def)

lemma example_initiated:
  "onRejected example_plugin (example_failure u 401) initial =
    (Suspended,
     \<lparr> pendingRequests = [newPending (example_request u) 0],
       isRefreshing = True, refreshPromise = Some 0, promises = 1,
       awaiting = [((example_failure u 401)\<lparr>config := Some ((example_request u)\<lparr>retry := True\<rparr>)\<rparr>, 0)],
       refreshCalls = 1, statusLog = [(''refreshing'', None)], settlements = [] \<rparr>)"
  by (simp add: handler_defs example_defs)

text \<open>
  Three runs on the example plugin. Two requests fail with 401 and the renewal gives
  \<^verbatim>\<open>"abc"\<close>: both are re-issued with the new header. The same with the timer firing:
  both are rejected. The same with a transport that throws for \<^verbatim>\<open>/b\<close>: the loop resolves
  the entry of \<^verbatim>\<open>/a\<close> and stops, and the \<^verbatim>\<open>catch\<close> block calls \<^verbatim>\<open>reject\<close> for both
  entries; the promise of \<^verbatim>\<open>/a\<close> stays resolved.
\<close>

lemma example_run_resolved:
  "settlements (run example_plugin example_axios
      [RequestFailed (example_failure ''/a'' 401), RequestFailed (example_failure ''/b'' 401),
       RenewalResolved 0 (Some ''abc'')] initial)
   = [(0, Resolve \<lparr>url = ''/a'', headers = Some [(''Authorization'', ''Bearer abc'')],
                    retry = True\<rparr>),
      (1, Resolve \<lparr>url = ''/b'', headers = Some [(''Authorization'', ''Bearer abc'')],
                    retry = True\<rparr>)]"
  by (simp add: handler_defs example_defs)

lemma example_run_timeout:
  "settlements (run example_plugin example_axios
      [RequestFailed (example_failure ''/a'' 401), RequestFailed (example_failure ''/b'' 401),
       TimeoutFired 0] initial)
   = [(0, Reject (JsError ''Token refresh failed''
                    (Some (ErrorObject (JsError ''Token refresh timeout'' None))))),
      (1, Reject (JsError ''Token refresh failed''
                    (Some (ErrorObject (JsError ''Token refresh timeout'' None)))))]"
  by (simp add: handler_defs example_defs)

lemma example_run_loop_throws:
  "settlements (run example_plugin (axios_throwing_for ''/b'')
      [RequestFailed (example_failure ''/a'' 401), RequestFailed (example_failure ''/b'' 401),
       RenewalResolved 0 (Some ''abc'')] initial)
   = [(0, Resolve \<lparr>url = ''/a'', headers = Some [(''Authorization'', ''Bearer abc'')],
                    retry = True\<rparr>),
      (0, Reject (JsError ''Token refresh failed''
                    (Some (ErrorObject (JsError ''Invalid URL'' None))))),
      (1, Reject (JsError ''Token refresh failed''
                    (Some (ErrorObject (JsError ''Invalid URL'' None)))))]
   \<and> settled (run example_plugin (axios_throwing_for ''/b'')
      [RequestFailed (example_failure ''/a'' 401), RequestFailed (example_failure ''/b'' 401),
       RenewalResolved 0 (Some ''abc'')] initial) 0
   = Some (Resolve \<lparr>url = ''/a'', headers = Some [(''Authorization'', ''Bearer abc'')],
                     retry = True\<rparr>)
   \<and> statusLog (run example_plugin (axios_throwing_for ''/b'')
      [RequestFailed (example_failure ''/a'' 401), RequestFailed (example_failure ''/b'' 401),
       RenewalResolved 0 (Some ''abc'')] initial)
   = [(''refreshing'', None), (''success'', None),
      (''failed'', Some (JsError ''Invalid URL'' None))]"
  by (simp add: handler_defs example_defs axios_throwing_for_def settled_def)

section \<open>The handler when the callbacks return\<close>

text \<open>
  A settlement neither invokes a renewal nor leaves the flag set. When the success loop
  throws, the entries it reached are resolved and then all entries are rejected. A batch
  of eligible failures that finds no renewal in progress, with an observer that returns
  from \<^verbatim>\<open>refreshing\<close> and a renewal function that returns its promise, invokes the renewal
  once; after any settlement of that race the flag is clear and the next eligible failure
  starts the second renewal.
\<close>

lemma settleRace_refreshCalls:
  "refreshCalls (snd (settleRace p axios k outcome c)) = refreshCalls c"
  by (auto simp: settleRace_def resume_def refreshTry_def refreshCatch_def interceptorCatch_def
      notify_def Let_def split: race_outcome.splits option.splits prod.splits)

lemma settleRace_clears_flag:
  "k < length (awaiting c) \<Longrightarrow> \<not> isRefreshing (snd (settleRace p axios k outcome c))"
  by (simp add: settleRace_def resume_clears_flag)

lemma resolveEach_promises:
  "map retryPromise (fst (resolveEach p axios newToken ws)) = map retryPromise ws"
  by (induction ws) (auto split: sum.splits prod.splits)

lemma map_via_promises:
  fixes xs ys :: "pending list"
  assumes "map retryPromise xs = map retryPromise ys"
  shows "map (\<lambda>w. (retryPromise w, s)) xs = map (\<lambda>w. (retryPromise w, s)) ys"
proof -
  have e: "map (\<lambda>w. (retryPromise w, s)) zs = map (\<lambda>i. (i, s)) (map retryPromise zs)"
    for zs :: "pending list"
    by (simp add: comp_def)
  from e [of xs] e [of ys] assms show ?thesis by simp
qed

lemma settle_fulfilled_loop_throws:
  assumes "k < length (awaiting c)" and "onStatusChange p ''success'' None = None"
    and "resolveEach p axios newToken (pendingRequests c) = (ws, resolved, Some ex)"
    and "onStatusChange p ''failed'' (Some (instanceofErrorOr ex ''Token refresh failed'')) = None"
  shows "settleRace p axios k (Fulfilled newToken) c =
    (ReturnRetryPromise (snd (awaiting c ! k)),
     c\<lparr> awaiting := take k (awaiting c) @ drop (Suc k) (awaiting c),
        statusLog := statusLog c
          @ [(''success'', None),
             (''failed'', Some (instanceofErrorOr ex ''Token refresh failed''))],
        settlements := settlements c @ resolved
          @ map (\<lambda>w. (retryPromise w,
                       Reject (JsError ''Token refresh failed''
                         (Some (ErrorObject (instanceofErrorOr ex ''Token refresh failed''))))))
              (pendingRequests c),
        pendingRequests := [],
        isRefreshing := False,
        refreshPromise := None \<rparr>)"
proof -
  have "map retryPromise ws = map retryPromise (pendingRequests c)"
    using resolveEach_promises [of p axios newToken "pendingRequests c"] assms(3) by simp
  then have "map (\<lambda>w. (retryPromise w, Reject e)) ws
      = map (\<lambda>w. (retryPromise w, Reject e)) (pendingRequests c)" for e
    by (rule map_via_promises)
  then show ?thesis
    using assms
    by (simp add: settleRace_def resume_def refreshTry_def refreshCatch_def notify_def Let_def
        rejectEach_map)
qed

lemma batch_single_flight:
  assumes idle: "\<not> isRefreshing c"
    and batch: "errors \<noteq> []" "\<forall>e \<in> set errors. eligible p e"
    and observer: "onStatusChange p ''refreshing'' None = None"
    and renewal: "refreshTokenFn p () = Inr ()"
  shows
    "refreshCalls (run p axios (map RequestFailed errors) c) = Suc (refreshCalls c)
     \<and> pendingRequests (run p axios (map RequestFailed errors) c)
         = pendingRequests c
           @ map (\<lambda>(i, e). newPending (the (config e)) i) (enumerate (promises c) errors)
     \<and> settlements (run p axios (map RequestFailed errors) c) = settlements c
     \<and> length (awaiting (run p axios (map RequestFailed errors) c)) = Suc (length (awaiting c))
     \<and> (\<forall>ev \<in> {RenewalResolved (length (awaiting c)) newToken,
                 RenewalRejected (length (awaiting c)) v,
                 TimeoutFired (length (awaiting c))}.
           refreshCalls (run p axios (map RequestFailed errors @ [ev]) c) = Suc (refreshCalls c)
           \<and> \<not> isRefreshing (run p axios (map RequestFailed errors @ [ev]) c)
           \<and> (\<forall>e. eligible p e \<longrightarrow>
                 fst (onRejected p e (run p axios (map RequestFailed errors @ [ev]) c)) = Suspended
                 \<and> refreshCalls (run p axios (map RequestFailed errors @ [ev, RequestFailed e]) c)
                     = Suc (Suc (refreshCalls c))))"
proof -
  let ?k = "length (awaiting c)"
  define c1 where "c1 = run p axios (map RequestFailed errors) c"
  have c1: "c1 =
     c\<lparr> promises := promises c + length errors,
        pendingRequests := pendingRequests c
          @ map (\<lambda>(i, e). newPending (the (config e)) i) (enumerate (promises c) errors),
        isRefreshing := True,
        statusLog := statusLog c @ [(''refreshing'', None)],
        refreshCalls := Suc (refreshCalls c),
        refreshPromise := Some (refreshCalls c),
        awaiting := awaiting c
          @ [((hd errors)\<lparr>config :=
                 Some (request (newPending (the (config (hd errors))) (promises c)))\<rparr>,
              promises c)] \<rparr>"
    unfolding c1_def by (rule run_batch [OF idle batch observer renewal])
  have k: "?k < length (awaiting c1)" by (simp add: c1)
  have calls: "refreshCalls c1 = Suc (refreshCalls c)"
    and pend: "pendingRequests c1 = pendingRequests c
           @ map (\<lambda>(i, e). newPending (the (config e)) i) (enumerate (promises c) errors)"
    and setl: "settlements c1 = settlements c"
    and len: "length (awaiting c1) = Suc (length (awaiting c))"
    by (simp_all add: c1)
  have after: "refreshCalls c2 = Suc (refreshCalls c) \<and> \<not> isRefreshing c2
      \<and> (\<forall>e. eligible p e \<longrightarrow>
            fst (onRejected p e c2) = Suspended
            \<and> refreshCalls (snd (onRejected p e c2)) = Suc (Suc (refreshCalls c)))"
    if "c2 = snd (settleRace p axios ?k outcome c1)" for c2 outcome
  proof -
    have n: "refreshCalls c2 = Suc (refreshCalls c)"
      unfolding that by (simp add: settleRace_refreshCalls calls)
    have idle2: "\<not> isRefreshing c2"
      unfolding that by (rule settleRace_clears_flag [OF k])
    show ?thesis
      using n idle2 by (simp add: onRejected_initiator [OF _ idle2 observer renewal])
  qed
  have s4: "\<forall>ev \<in> {RenewalResolved ?k newToken, RenewalRejected ?k v, TimeoutFired ?k}.
           refreshCalls (run p axios (map RequestFailed errors @ [ev]) c) = Suc (refreshCalls c)
           \<and> \<not> isRefreshing (run p axios (map RequestFailed errors @ [ev]) c)
           \<and> (\<forall>e. eligible p e \<longrightarrow>
                 fst (onRejected p e (run p axios (map RequestFailed errors @ [ev]) c)) = Suspended
                 \<and> refreshCalls (run p axios (map RequestFailed errors @ [ev, RequestFailed e]) c)
                     = Suc (Suc (refreshCalls c)))"
    using after [OF refl, of "Fulfilled newToken"] after [OF refl, of "RejectedWith v"]
      after [OF refl, of "RejectedWith (ErrorObject (JsError ''Token refresh timeout'' None))"]
    by (simp add: run_snoc run_snoc2 c1_def [symmetric])
  show ?thesis
    using calls pend setl len s4 unfolding c1_def by (intro conjI)
qed

section \<open>The claims\<close>

subsection \<open>C1: one renewal for a batch of failures, and a clean state afterwards\<close>

text \<open>
  C1 fails on the code, on the path it names as internal error. The caller's observer
  throws on every call. The first of three eligible failures sets \<^verbatim>\<open>isRefreshing\<close>; the
  observer's exception at \<^verbatim>\<open>refreshing\<close> reaches the outer \<^verbatim>\<open>catch\<close>, whose own call of
  the observer throws before the loop and the reset of that block. The flag stays set
  with no renewal invoked and no handler suspended, so the second and the third failure
  do not start a renewal: they only join, and none of the three requests is ever
  settled.
\<close>

theorem internal_error_leaves_flag_set:
  "createRefreshTokenPlugin (example_options\<lparr>options_onStatusChange := Some throws_always\<rparr>)
     = Inr (example_plugin\<lparr>onStatusChange := throws_always\<rparr>, initial)
   \<and> results (example_plugin\<lparr>onStatusChange := throws_always\<rparr>) example_axios
       [RequestFailed (example_failure ''/a'' 401), RequestFailed (example_failure ''/b'' 401),
        RequestFailed (example_failure ''/c'' 401)] initial
     = [Throws (ErrorObject (JsError ''boom'' None)), ReturnRetryPromise 1, ReturnRetryPromise 2]
   \<and> refreshCalls (run (example_plugin\<lparr>onStatusChange := throws_always\<rparr>) example_axios
       [RequestFailed (example_failure ''/a'' 401), RequestFailed (example_failure ''/b'' 401),
        RequestFailed (example_failure ''/c'' 401)] initial) = 0
   \<and> isRefreshing (run (example_plugin\<lparr>onStatusChange := throws_always\<rparr>) example_axios
       [RequestFailed (example_failure ''/a'' 401), RequestFailed (example_failure ''/b'' 401),
        RequestFailed (example_failure ''/c'' 401)] initial) = True
   \<and> awaiting (run (example_plugin\<lparr>onStatusChange := throws_always\<rparr>) example_axios
       [RequestFailed (example_failure ''/a'' 401), RequestFailed (example_failure ''/b'' 401),
        RequestFailed (example_failure ''/c'' 401)] initial) = []
   \<and> map retryPromise (pendingRequests
       (run (example_plugin\<lparr>onStatusChange := throws_always\<rparr>) example_axios
         [RequestFailed (example_failure ''/a'' 401), RequestFailed (example_failure ''/b'' 401),
          RequestFailed (example_failure ''/c'' 401)] initial)) = [0, 1, 2]
   \<and> settlements (run (example_plugin\<lparr>onStatusChange := throws_always\<rparr>) example_axios
       [RequestFailed (example_failure ''/a'' 401), RequestFailed (example_failure ''/b'' 401),
        RequestFailed (example_failure ''/c'' 401)] initial) = []
   \<and> statusLog (run (example_plugin\<lparr>onStatusChange := throws_always\<rparr>) example_axios
       [RequestFailed (example_failure ''/a'' 401), RequestFailed (example_failure ''/b'' 401),
        RequestFailed (example_failure ''/c'' 401)] initial)
     = [(''refreshing'', None), (''error'', Some (JsError ''boom'' None))]"
  by (simp add: handler_defs example_defs createRefreshTokenPlugin_def example_options_def)

subsection \<open>C2: the default classifier\<close>

text \<open>
  C2. When the caller passes no \<^verbatim>\<open>shouldRefreshToken\<close>, the classifier of the plugin
  returns true exactly when the error has a response with status 401 or has no response
  at all, and the accessor that the caller passed as \<^verbatim>\<open>getAuthToken\<close> returns a token
  that JavaScript counts as true (a non-empty string). It returns false when a response
  with another status is present, and when the caller's accessor returns \<^verbatim>\<open>null\<close> or the
  empty string.
\<close>

theorem default_classifier_policy:
  assumes "createRefreshTokenPlugin opts = Inr (p, c)"
    and "options_shouldRefreshToken opts = None"
    and "options_getAuthToken opts = JsFunction g"
  shows
    "(shouldRefreshToken p error originalRequest = Inr True) =
       (((\<exists>r. response error = Some r \<and> status r = 401) \<or> response error = None)
        \<and> (\<exists>t. g () = Inr (Some t) \<and> t \<noteq> []))
     \<and> ((\<exists>r. response error = Some r \<and> status r \<noteq> 401) \<longrightarrow>
          shouldRefreshToken p error originalRequest = Inr False)
     \<and> (g () = Inr None \<or> g () = Inr (Some []) \<longrightarrow>
          shouldRefreshToken p error originalRequest = Inr False)"
proof -
  from assms have cls: "shouldRefreshToken p = default_shouldRefreshToken g"
    by (auto simp: createRefreshTokenPlugin_def split: jsarg.splits)
  show ?thesis
    unfolding cls default_shouldRefreshToken_def
    by (cases "response error"; cases "g ()")
       (auto simp: Let_def elim: truthy.elims)
qed

text \<open>
  C2 at an example: the caller's accessor returns \<^verbatim>\<open>"old"\<close>; a 401 is eligible and a 500
  is not.
\<close>

theorem default_classifier_policy_witness:
  "shouldRefreshToken example_plugin (example_failure ''/a'' 401) (example_request ''/a'') = Inr True
   \<and> shouldRefreshToken example_plugin (example_failure ''/a'' 500) (example_request ''/a'')
       = Inr False"
proof -
  have h: "options_shouldRefreshToken example_options = None"
    and g: "options_getAuthToken example_options = JsFunction (\<lambda>_. Inr (Some ''old''))"
    by (simp_all add: example_options_def)
  show ?thesis
    using default_classifier_policy [OF example_created h g,
        of "example_failure ''/a'' 401" "example_request ''/a''"]
      default_classifier_policy [OF example_created h g,
        of "example_failure ''/a'' 500" "example_request ''/a''"]
    by (simp add: example_failure_def)
qed

subsection \<open>C3: failures that are not retried\<close>

text \<open>
  C3. A failure without a request description, a failure for which the classifier returns
  false, and a failure of a request already marked \<^verbatim>\<open>_retry\<close> (whatever the classifier
  returns for it) are each rejected with the error that came in, and the state is the
  same afterwards. A request that is already marked is never added to the wait set, is
  given no promise, and starts no renewal, also when the classifier throws.
\<close>

theorem not_retryable_propagation:
  "(config error = None \<longrightarrow> onRejected p error c = (RejectOriginal error, c))
   \<and> (config error = Some r \<and> shouldRefreshToken p error r = Inr False \<longrightarrow>
        onRejected p error c = (RejectOriginal error, c))
   \<and> (config error = Some r \<and> retry r \<and> shouldRefreshToken p error r = Inr b \<longrightarrow>
        onRejected p error c = (RejectOriginal error, c))
   \<and> (config error = Some r \<and> retry r \<longrightarrow>
        set (pendingRequests (snd (onRejected p error c))) \<subseteq> set (pendingRequests c)
        \<and> promises (snd (onRejected p error c)) = promises c
        \<and> refreshCalls (snd (onRejected p error c)) = refreshCalls c
        \<and> awaiting (snd (onRejected p error c)) = awaiting c)"
  by (auto simp: onRejected_def interceptorCatch_def notify_def Let_def
      split: option.splits sum.splits prod.splits)

text \<open>
  C3 at examples: an error without \<^verbatim>\<open>config\<close>, a 500, and a 401 of a request that was
  retried before.
\<close>

theorem not_retryable_propagation_witness:
  "onRejected example_plugin \<lparr>config = None, response = None\<rparr> initial
     = (RejectOriginal \<lparr>config = None, response = None\<rparr>, initial)
   \<and> onRejected example_plugin (example_failure ''/a'' 500) initial
     = (RejectOriginal (example_failure ''/a'' 500), initial)
   \<and> onRejected example_plugin
       \<lparr>config = Some ((example_request ''/a'')\<lparr>retry := True\<rparr>),
        response = Some \<lparr>status = 401\<rparr>\<rparr> initial
     = (RejectOriginal
         \<lparr>config = Some ((example_request ''/a'')\<lparr>retry := True\<rparr>),
          response = Some \<lparr>status = 401\<rparr>\<rparr>, initial)"
  using
    not_retryable_propagation [where error = "\<lparr>config = None, response = None\<rparr>"
      and p = example_plugin and c = initial and r = "example_request ''/a''" and b = True]
    not_retryable_propagation [where error = "example_failure ''/a'' 500"
      and p = example_plugin and c = initial and r = "example_request ''/a''" and b = False]
    not_retryable_propagation [where error =
        "\<lparr>config = Some ((example_request ''/a'')\<lparr>retry := True\<rparr>),
          response = Some \<lparr>status = 401\<rparr>\<rparr>"
      and p = example_plugin and c = initial
      and r = "(example_request ''/a'')\<lparr>retry := True\<rparr>" and b = True]
  by (simp add: example_failure_def example_plugin_def example_request_def
      default_shouldRefreshToken_def)

subsection \<open>C4: a renewal that fails or times out\<close>

text \<open>
  C4 as stated fails: a renewal that rejects with a value that is not an \<^verbatim>\<open>Error\<close> (here
  the string \<^verbatim>\<open>"expired"\<close>) has its value replaced by \<^verbatim>\<open>new Error("Token refresh failed")\<close>
  before anything is reported, so the rejection of the waiting request does not carry it.
\<close>

theorem renewal_rejection_cause_counterexample:
  "settlements (run example_plugin example_axios
      [RequestFailed (example_failure ''/a'' 401), RenewalRejected 0 (OtherValue ''expired'')]
      initial)
   = [(0, Reject (JsError ''Token refresh failed''
                    (Some (ErrorObject (JsError ''Token refresh failed'' None)))))]
   \<and> settlements (run example_plugin example_axios
      [RequestFailed (example_failure ''/a'' 401), RenewalRejected 0 (OtherValue ''expired'')]
      initial)
   \<noteq> [(0, Reject (JsError ''Token refresh failed'' (Some (OtherValue ''expired''))))]"
  by (simp add: onRejected_def settleRace_def resume_def refreshTry_def refreshCatch_def
      notify_def newPending_def initial_def example_plugin_def example_failure_def
      example_request_def default_shouldRefreshToken_def default_onStatusChange_def Let_def)

text \<open>
  C4, amended. When the race of a suspended handler is rejected and the observer returns
  from its \<^verbatim>\<open>failed\<close> call, every waiting request is rejected with an error whose message
  is \<^verbatim>\<open>Token refresh failed\<close> and whose \<^verbatim>\<open>originalError\<close> is the cause, the observer has
  been called with \<^verbatim>\<open>failed\<close> and that cause, the wait set is empty and the flag is clear.
  The cause is the renewal's rejection value when that is an \<^verbatim>\<open>Error\<close>, a new
  \<^verbatim>\<open>Error("Token refresh failed")\<close> when it is any other value, and
  \<^verbatim>\<open>Error("Token refresh timeout")\<close> when the timer fired. The timeout is 10000 when the
  caller gives none.
\<close>

theorem renewal_failure_fanout:
  assumes "k < length (awaiting c)"
    and "\<forall>err. onStatusChange p ''failed'' (Some err) = None"
  shows
    "(\<forall>(ev, cause) \<in> {(RenewalRejected k (ErrorObject e), e),
                       (RenewalRejected k (OtherValue x), JsError ''Token refresh failed'' None),
                       (TimeoutFired k, JsError ''Token refresh timeout'' None)}.
        settlements (snd (step p axios ev c))
          = settlements c
            @ rejectEach (JsError ''Token refresh failed'' (Some (ErrorObject cause)))
                (pendingRequests c)
        \<and> (\<forall>w \<in> set (pendingRequests c).
              (retryPromise w, Reject (JsError ''Token refresh failed'' (Some (ErrorObject cause))))
                \<in> set (settlements (snd (step p axios ev c))))
        \<and> statusLog (snd (step p axios ev c)) = statusLog c @ [(''failed'', Some cause)]
        \<and> pendingRequests (snd (step p axios ev c)) = []
        \<and> \<not> isRefreshing (snd (step p axios ev c)))
     \<and> (createRefreshTokenPlugin opts = Inr (q, d) \<and> options_refreshTimeout opts = None
          \<longrightarrow> refreshTimeout q = 10000)"
proof -
  from assms(2) have quiet: "\<And>err. onStatusChange p ''failed'' (Some err) = None" by simp
  have rej: "settlements (snd (settleRace p axios k (RejectedWith v) c))
          = settlements c
            @ rejectEach (JsError ''Token refresh failed''
                 (Some (ErrorObject (instanceofErrorOr v ''Token refresh failed''))))
                (pendingRequests c)
        \<and> (\<forall>w \<in> set (pendingRequests c).
              (retryPromise w, Reject (JsError ''Token refresh failed''
                 (Some (ErrorObject (instanceofErrorOr v ''Token refresh failed'')))))
                \<in> set (settlements (snd (settleRace p axios k (RejectedWith v) c))))
        \<and> statusLog (snd (settleRace p axios k (RejectedWith v) c))
            = statusLog c @ [(''failed'', Some (instanceofErrorOr v ''Token refresh failed''))]
        \<and> pendingRequests (snd (settleRace p axios k (RejectedWith v) c)) = []
        \<and> \<not> isRefreshing (snd (settleRace p axios k (RejectedWith v) c))" for v
    by (simp add: settle_rejected [OF assms(1) quiet] mem_rejectEach)
  have timeout: "createRefreshTokenPlugin opts = Inr (q, d) \<and> options_refreshTimeout opts = None
          \<longrightarrow> refreshTimeout q = 10000"
    by (auto simp: createRefreshTokenPlugin_def default_refreshTimeout_def split: jsarg.splits)
  show ?thesis
    using rej [of "ErrorObject e"] rej [of "OtherValue x"]
      rej [of "ErrorObject (JsError ''Token refresh timeout'' None)"] timeout
    by (simp add: mem_rejectEach)
qed

text \<open>C4 (amended) at an example: one request waits and the timer fires.\<close>

theorem renewal_failure_fanout_witness:
  "settlements (snd (step example_plugin example_axios (TimeoutFired 0)
      (snd (onRejected example_plugin (example_failure ''/a'' 401) initial))))
   = [(0, Reject (JsError ''Token refresh failed''
                    (Some (ErrorObject (JsError ''Token refresh timeout'' None)))))]
   \<and> statusLog (snd (step example_plugin example_axios (TimeoutFired 0)
      (snd (onRejected example_plugin (example_failure ''/a'' 401) initial))))
   = [(''refreshing'', None), (''failed'', Some (JsError ''Token refresh timeout'' None))]
   \<and> refreshTimeout example_plugin = 10000"
proof -
  let ?c = "snd (onRejected example_plugin (example_failure ''/a'' 401) initial)"
  have h1: "0 < length (awaiting ?c)" by (simp add: example_initiated)
  have h2: "\<forall>err. onStatusChange example_plugin ''failed'' (Some err) = None"
    by (simp add: example_plugin_def default_onStatusChange_def)
  have h3: "options_refreshTimeout example_options = None" by (simp add: example_options_def)
  show ?thesis
    using renewal_failure_fanout [OF h1 h2, where e = "JsError ''x'' None" and x = "''y''"
        and opts = example_options and q = example_plugin and d = initial]
      example_created h3
    by (simp add: example_initiated newPending_def)
qed

subsection \<open>C5: the new credential on the retried requests\<close>

text \<open>
  C5. Let the race of a suspended handler be fulfilled, on a plugin made from the
  caller's options, with an observer that returns from its \<^verbatim>\<open>success\<close> call.
  \<^item> If the new token is a non-empty string and the formatter returns a header value for
    it (the caller's \<^verbatim>\<open>authHeaderFormatter\<close> if one was passed, \<^verbatim>\<open>Bearer <token>\<close>
    otherwise), then every waiting request that has a headers object gets that value as
    its \<^verbatim>\<open>Authorization\<close> header, is re-issued so, and its entry is resolved with the
    re-issued call; the wait set is empty afterwards.
  \<^item> If the renewal gave \<^verbatim>\<open>null\<close> (or the empty string), every waiting request is
    re-issued as it was.
  \<^item> If the loop throws (the formatter, the header assignment or the transport's call),
    the entries reached before are resolved, no further request is re-issued, and every
    entry is rejected with \<^verbatim>\<open>Token refresh failed\<close> and the exception, provided the
    observer returns from its \<^verbatim>\<open>failed\<close> call; in particular, when the caller's formatter
    throws, no request is re-issued.
\<close>

theorem credential_rewrite_on_success:
  assumes created: "createRefreshTokenPlugin opts = Inr (p, c0)"
    and suspended: "k < length (awaiting c)"
    and observer: "onStatusChange p ''success'' None = None"
  shows
    "(t \<noteq> []
      \<and> (options_authHeaderFormatter opts = Some f \<and> f t = Inr h
          \<or> options_authHeaderFormatter opts = None \<and> h = ''Bearer '' @ t)
      \<and> (\<forall>w \<in> set (pendingRequests c).
            \<exists>hs. headers (request w) = Some hs
              \<and> axios ((request w)\<lparr>headers := Some (AList.update ''Authorization'' h hs)\<rparr>)
                  = Inr ())
      \<longrightarrow>
        settlements (snd (step p axios (RenewalResolved k (Some t)) c))
          = settlements c
            @ map (\<lambda>w. (retryPromise w,
                         Resolve ((request w)\<lparr>headers :=
                           Some (AList.update ''Authorization'' h (the (headers (request w))))\<rparr>)))
                (pendingRequests c)
        \<and> (\<forall>w \<in> set (pendingRequests c).
              map_of (AList.update ''Authorization'' h (the (headers (request w))))
                ''Authorization'' = Some h)
        \<and> statusLog (snd (step p axios (RenewalResolved k (Some t)) c))
            = statusLog c @ [(''success'', None)]
        \<and> pendingRequests (snd (step p axios (RenewalResolved k (Some t)) c)) = [])
     \<and> (\<not> truthy newToken \<and> (\<forall>w \<in> set (pendingRequests c). axios (request w) = Inr ())
      \<longrightarrow>
        settlements (snd (step p axios (RenewalResolved k newToken) c))
          = settlements c @ map (\<lambda>w. (retryPromise w, Resolve (request w))) (pendingRequests c)
        \<and> pendingRequests (snd (step p axios (RenewalResolved k newToken) c)) = [])
     \<and> (resolveEach p axios newToken (pendingRequests c) = (ws, resolved, Some ex)
        \<and> onStatusChange p ''failed'' (Some (instanceofErrorOr ex ''Token refresh failed'')) = None
      \<longrightarrow>
        settlements (snd (step p axios (RenewalResolved k newToken) c))
          = settlements c @ resolved
            @ map (\<lambda>w. (retryPromise w,
                         Reject (JsError ''Token refresh failed''
                           (Some (ErrorObject (instanceofErrorOr ex ''Token refresh failed''))))))
                (pendingRequests c)
        \<and> statusLog (snd (step p axios (RenewalResolved k newToken) c))
            = statusLog c
              @ [(''success'', None),
                 (''failed'', Some (instanceofErrorOr ex ''Token refresh failed''))]
        \<and> pendingRequests (snd (step p axios (RenewalResolved k newToken) c)) = [])
     \<and> (t \<noteq> [] \<and> options_authHeaderFormatter opts = Some f \<and> f t = Inl ex
        \<and> pendingRequests c \<noteq> []
        \<and> onStatusChange p ''failed'' (Some (instanceofErrorOr ex ''Token refresh failed'')) = None
      \<longrightarrow>
        settlements (snd (step p axios (RenewalResolved k (Some t)) c))
          = settlements c
            @ map (\<lambda>w. (retryPromise w,
                         Reject (JsError ''Token refresh failed''
                           (Some (ErrorObject (instanceofErrorOr ex ''Token refresh failed''))))))
                (pendingRequests c)
        \<and> pendingRequests (snd (step p axios (RenewalResolved k (Some t)) c)) = [])"
proof -
  have fmt: "authHeaderFormatter p =
      (case options_authHeaderFormatter opts of None \<Rightarrow> default_authHeaderFormatter | Some f \<Rightarrow> f)"
    using created by (auto simp: createRefreshTokenPlugin_def split: jsarg.splits)
  have part1: "settlements (snd (settleRace p axios k (Fulfilled (Some t)) c))
          = settlements c
            @ map (\<lambda>w. (retryPromise w,
                         Resolve ((request w)\<lparr>headers :=
                           Some (AList.update ''Authorization'' h (the (headers (request w))))\<rparr>)))
                (pendingRequests c)
        \<and> (\<forall>w \<in> set (pendingRequests c).
              map_of (AList.update ''Authorization'' h (the (headers (request w))))
                ''Authorization'' = Some h)
        \<and> statusLog (snd (settleRace p axios k (Fulfilled (Some t)) c))
            = statusLog c @ [(''success'', None)]
        \<and> pendingRequests (snd (settleRace p axios k (Fulfilled (Some t)) c)) = []"
    if t: "t \<noteq> []"
      and f: "options_authHeaderFormatter opts = Some f \<and> f t = Inr h
          \<or> options_authHeaderFormatter opts = None \<and> h = ''Bearer '' @ t"
      and ws: "\<forall>w \<in> set (pendingRequests c).
            \<exists>hs. headers (request w) = Some hs
              \<and> axios ((request w)\<lparr>headers := Some (AList.update ''Authorization'' h hs)\<rparr>)
                  = Inr ()"
  proof -
    from f have h: "authHeaderFormatter p t = Inr h"
      by (auto simp: fmt default_authHeaderFormatter_def)
    have rw: "withNewToken p (Some t) (request w)
        = Inr ((request w)\<lparr>headers :=
                 Some (AList.update ''Authorization'' h (the (headers (request w))))\<rparr>)"
      if "w \<in> set (pendingRequests c)" for w
      using ws that t h by (auto simp: withNewToken_def setAuthorization_def)
    have ok: "\<forall>w \<in> set (pendingRequests c).
        \<exists>req. withNewToken p (Some t) (request w) = Inr req \<and> axios req = Inr ()"
      using ws rw by fastforce
    have m: "map (\<lambda>w. (retryPromise w, Resolve (projr (withNewToken p (Some t) (request w)))))
          (pendingRequests c)
      = map (\<lambda>w. (retryPromise w,
                   Resolve ((request w)\<lparr>headers :=
                     Some (AList.update ''Authorization'' h (the (headers (request w))))\<rparr>)))
          (pendingRequests c)"
      by (rule map_cong [OF refl]) (simp add: rw)
    show ?thesis
      by (simp add: settle_fulfilled [OF suspended observer ok] m update_conv')
  qed
  have part2: "settlements (snd (settleRace p axios k (Fulfilled newToken) c))
          = settlements c @ map (\<lambda>w. (retryPromise w, Resolve (request w))) (pendingRequests c)
        \<and> pendingRequests (snd (settleRace p axios k (Fulfilled newToken) c)) = []"
    if nt: "\<not> truthy newToken" and ws: "\<forall>w \<in> set (pendingRequests c). axios (request w) = Inr ()"
  proof -
    have rw: "withNewToken p newToken r = Inr r" for r
      using nt by (cases newToken) (simp_all add: withNewToken_def)
    have ok: "\<forall>w \<in> set (pendingRequests c).
        \<exists>req. withNewToken p newToken (request w) = Inr req \<and> axios req = Inr ()"
      using ws by (simp add: rw)
    show ?thesis
      by (simp add: settle_fulfilled [OF suspended observer ok] rw)
  qed
  have part3: "settlements (snd (settleRace p axios k (Fulfilled newToken) c))
          = settlements c @ resolved
            @ map (\<lambda>w. (retryPromise w,
                         Reject (JsError ''Token refresh failed''
                           (Some (ErrorObject (instanceofErrorOr ex ''Token refresh failed''))))))
                (pendingRequests c)
        \<and> statusLog (snd (settleRace p axios k (Fulfilled newToken) c))
            = statusLog c
              @ [(''success'', None),
                 (''failed'', Some (instanceofErrorOr ex ''Token refresh failed''))]
        \<and> pendingRequests (snd (settleRace p axios k (Fulfilled newToken) c)) = []"
    if "resolveEach p axios newToken (pendingRequests c) = (ws, resolved, Some ex)"
      and "onStatusChange p ''failed'' (Some (instanceofErrorOr ex ''Token refresh failed'')) = None"
    by (simp add: settle_fulfilled_loop_throws [OF suspended observer that])
  have part4: "settlements (snd (settleRace p axios k (Fulfilled (Some t)) c))
          = settlements c
            @ map (\<lambda>w. (retryPromise w,
                         Reject (JsError ''Token refresh failed''
                           (Some (ErrorObject (instanceofErrorOr ex ''Token refresh failed''))))))
                (pendingRequests c)
        \<and> pendingRequests (snd (settleRace p axios k (Fulfilled (Some t)) c)) = []"
    if t: "t \<noteq> []" and f: "options_authHeaderFormatter opts = Some f" "f t = Inl ex"
      and ne: "pendingRequests c \<noteq> []"
      and q: "onStatusChange p ''failed'' (Some (instanceofErrorOr ex ''Token refresh failed'')) = None"
  proof -
    from ne obtain w ws where l: "pendingRequests c = w # ws" by (cases "pendingRequests c") auto
    have "withNewToken p (Some t) (request w) = Inl ex"
      using t f by (simp add: withNewToken_def setAuthorization_def fmt)
    then have r: "resolveEach p axios (Some t) (pendingRequests c) = (pendingRequests c, [], Some ex)"
      unfolding l by (rule resolveEach_throws_first)
    show ?thesis
      by (simp add: settle_fulfilled_loop_throws [OF suspended observer r q])
  qed
  show ?thesis
    unfolding step.simps using part1 part2 part3 part4 by blast
qed

text \<open>
  C5 at examples: the renewal gives \<^verbatim>\<open>"abc"\<close>; with the default formatter the waiting
  request is re-issued with \<^verbatim>\<open>Bearer abc\<close>, and with the caller's formatter
  \<^verbatim>\<open>(token) => `Token ${token}`\<close> it is re-issued with \<^verbatim>\<open>Token abc\<close>.
\<close>

theorem credential_rewrite_on_success_witness:
  "settlements (snd (step example_plugin example_axios (RenewalResolved 0 (Some ''abc''))
      (snd (onRejected example_plugin (example_failure ''/a'' 401) initial))))
   = [(0, Resolve \<lparr>url = ''/a'', headers = Some [(''Authorization'', ''Bearer abc'')],
                    retry = True\<rparr>)]
   \<and> settlements (snd (step (example_plugin\<lparr>authHeaderFormatter := (\<lambda>t. Inr (''Token '' @ t))\<rparr>)
        example_axios (RenewalResolved 0 (Some ''abc''))
        (snd (onRejected example_plugin (example_failure ''/a'' 401) initial))))
   = [(0, Resolve \<lparr>url = ''/a'', headers = Some [(''Authorization'', ''Token abc'')],
                    retry = True\<rparr>)]"
proof -
  let ?c = "snd (onRejected example_plugin (example_failure ''/a'' 401) initial)"
  let ?f = "\<lambda>t. Inr (''Token '' @ t) :: jsvalue + string"
  let ?q = "example_plugin\<lparr>authHeaderFormatter := ?f\<rparr>"
  have h1: "0 < length (awaiting ?c)" by (simp add: example_initiated)
  have h2: "onStatusChange example_plugin ''success'' None = None"
    and h2': "onStatusChange ?q ''success'' None = None"
    by (simp_all add: example_plugin_def default_onStatusChange_def)
  have created': "createRefreshTokenPlugin (example_options\<lparr>options_authHeaderFormatter := Some ?f\<rparr>)
      = Inr (?q, initial)"
    by (simp add: createRefreshTokenPlugin_def example_options_def example_plugin_def)
  have pend: "pendingRequests ?c = [newPending (example_request ''/a'') 0]"
    by (simp add: example_initiated)
  have a: "settlements (snd (step example_plugin example_axios (RenewalResolved 0 (Some ''abc'')) ?c))
      = [(0, Resolve \<lparr>url = ''/a'', headers = Some [(''Authorization'', ''Bearer abc'')],
                    retry = True\<rparr>)]"
    using credential_rewrite_on_success [OF example_created h1 h2, where t = "''abc''"
        and h = "''Bearer abc''" and f = ?f and axios = example_axios and newToken = None
        and ws = "[]" and resolved = "[]" and ex = "OtherValue ''x''"]
    by (simp add: pend example_options_def example_axios_def newPending_def example_request_def
        example_initiated)
  have b: "settlements (snd (step ?q example_axios (RenewalResolved 0 (Some ''abc'')) ?c))
      = [(0, Resolve \<lparr>url = ''/a'', headers = Some [(''Authorization'', ''Token abc'')],
                    retry = True\<rparr>)]"
    using credential_rewrite_on_success [OF created' h1 h2', where t = "''abc''"
        and h = "''Token abc''" and f = ?f and axios = example_axios and newToken = None
        and ws = "[]" and resolved = "[]" and ex = "OtherValue ''x''"]
    by (simp add: pend example_options_def example_axios_def newPending_def example_request_def
        example_initiated)
  from a b show ?thesis by (intro conjI)
qed

subsection \<open>C6: requests that join while the renewal is pending\<close>

text \<open>
  C6 fails on the code. The caller's observer throws when it is called with \<^verbatim>\<open>failed\<close>.
  \<^verbatim>\<open>/a\<close> starts the renewal; \<^verbatim>\<open>/b\<close> fails while the renewal is pending and joins, with
  promise 1. When the timer fires, or when the renewal rejects, the observer's exception
  leaves the inner \<^verbatim>\<open>catch\<close> before its loop: the late request is not part of any
  fan-out. Its promise stays pending, its entry stays in the wait set, and the handler
  that was to settle it has returned.
\<close>

theorem late_joiner_left_out_of_fanout:
  "createRefreshTokenPlugin
       (example_options\<lparr>options_onStatusChange := Some (throws_on ''failed'')\<rparr>)
     = Inr (example_plugin\<lparr>onStatusChange := throws_on ''failed''\<rparr>, initial)
   \<and> refreshCalls (run (example_plugin\<lparr>onStatusChange := throws_on ''failed''\<rparr>) example_axios
       [RequestFailed (example_failure ''/a'' 401)] initial) = 1
   \<and> results (example_plugin\<lparr>onStatusChange := throws_on ''failed''\<rparr>) example_axios
       [RequestFailed (example_failure ''/a'' 401), RequestFailed (example_failure ''/b'' 401),
        TimeoutFired 0] initial
     = [Suspended, ReturnRetryPromise 1,
        RejectOriginal ((example_failure ''/a'' 401)
          \<lparr>config := Some ((example_request ''/a'')\<lparr>retry := True\<rparr>)\<rparr>)]
   \<and> settled (run (example_plugin\<lparr>onStatusChange := throws_on ''failed''\<rparr>) example_axios
       [RequestFailed (example_failure ''/a'' 401), RequestFailed (example_failure ''/b'' 401),
        TimeoutFired 0] initial) 1 = None
   \<and> settled (run (example_plugin\<lparr>onStatusChange := throws_on ''failed''\<rparr>) example_axios
       [RequestFailed (example_failure ''/a'' 401), RequestFailed (example_failure ''/b'' 401),
        RenewalRejected 0 (OtherValue ''expired'')] initial) 1 = None
   \<and> pendingRequests (run (example_plugin\<lparr>onStatusChange := throws_on ''failed''\<rparr>) example_axios
       [RequestFailed (example_failure ''/a'' 401), RequestFailed (example_failure ''/b'' 401),
        TimeoutFired 0] initial)
     = [newPending (example_request ''/a'') 0, newPending (example_request ''/b'') 1]
   \<and> awaiting (run (example_plugin\<lparr>onStatusChange := throws_on ''failed''\<rparr>) example_axios
       [RequestFailed (example_failure ''/a'' 401), RequestFailed (example_failure ''/b'' 401),
        TimeoutFired 0] initial) = []
   \<and> statusLog (run (example_plugin\<lparr>onStatusChange := throws_on ''failed''\<rparr>) example_axios
       [RequestFailed (example_failure ''/a'' 401), RequestFailed (example_failure ''/b'' 401),
        TimeoutFired 0] initial)
     = [(''refreshing'', None), (''failed'', Some (JsError ''Token refresh timeout'' None))]"
  by (simp add: handler_defs example_defs settled_def createRefreshTokenPlugin_def
      example_options_def)

subsection \<open>C7: what a joining call does\<close>

text \<open>
  C7 fails on the code, in its second half. A call that arrives while a renewal is in
  progress does only add its entry and return that entry's promise: here \<^verbatim>\<open>/b\<close> gets
  promise 1, and no renewal is invoked and no observer called for it. But the handler of
  the call that started the renewal does not always settle that promise: the renewal
  rejects, the caller's observer throws at \<^verbatim>\<open>failed\<close>, and the handler returns without
  having called \<^verbatim>\<open>resolve\<close> or \<^verbatim>\<open>reject\<close> of any entry. No handler is suspended after
  that, and a later event of the same race is ignored, so promise 1 stays pending.
\<close>

theorem joiner_promise_left_pending:
  "onRejected (example_plugin\<lparr>onStatusChange := throws_on ''failed''\<rparr>)
       (example_failure ''/b'' 401)
       (run (example_plugin\<lparr>onStatusChange := throws_on ''failed''\<rparr>) example_axios
          [RequestFailed (example_failure ''/a'' 401)] initial)
     = (ReturnRetryPromise 1,
        (run (example_plugin\<lparr>onStatusChange := throws_on ''failed''\<rparr>) example_axios
           [RequestFailed (example_failure ''/a'' 401)] initial)
        \<lparr> promises := 2,
           pendingRequests :=
             [newPending (example_request ''/a'') 0, newPending (example_request ''/b'') 1] \<rparr>)
   \<and> fst (step (example_plugin\<lparr>onStatusChange := throws_on ''failed''\<rparr>) example_axios
       (RenewalRejected 0 (ErrorObject (JsError ''invalid_grant'' None)))
       (run (example_plugin\<lparr>onStatusChange := throws_on ''failed''\<rparr>) example_axios
          [RequestFailed (example_failure ''/a'' 401), RequestFailed (example_failure ''/b'' 401)]
          initial))
     = RejectOriginal ((example_failure ''/a'' 401)
          \<lparr>config := Some ((example_request ''/a'')\<lparr>retry := True\<rparr>)\<rparr>)
   \<and> settled (run (example_plugin\<lparr>onStatusChange := throws_on ''failed''\<rparr>) example_axios
       [RequestFailed (example_failure ''/a'' 401), RequestFailed (example_failure ''/b'' 401),
        RenewalRejected 0 (ErrorObject (JsError ''invalid_grant'' None))] initial) 1 = None
   \<and> awaiting (run (example_plugin\<lparr>onStatusChange := throws_on ''failed''\<rparr>) example_axios
       [RequestFailed (example_failure ''/a'' 401), RequestFailed (example_failure ''/b'' 401),
        RenewalRejected 0 (ErrorObject (JsError ''invalid_grant'' None))] initial) = []
   \<and> results (example_plugin\<lparr>onStatusChange := throws_on ''failed''\<rparr>) example_axios
       [RequestFailed (example_failure ''/a'' 401), RequestFailed (example_failure ''/b'' 401),
        RenewalRejected 0 (ErrorObject (JsError ''invalid_grant'' None)),
        RenewalResolved 0 (Some ''abc''), TimeoutFired 0] initial
     = [Suspended, ReturnRetryPromise 1,
        RejectOriginal ((example_failure ''/a'' 401)
          \<lparr>config := Some ((example_request ''/a'')\<lparr>retry := True\<rparr>)\<rparr>),
        Ignored, Ignored]
   \<and> settled (run (example_plugin\<lparr>onStatusChange := throws_on ''failed''\<rparr>) example_axios
       [RequestFailed (example_failure ''/a'' 401), RequestFailed (example_failure ''/b'' 401),
        RenewalRejected 0 (ErrorObject (JsError ''invalid_grant'' None)),
        RenewalResolved 0 (Some ''abc''), TimeoutFired 0] initial) 1 = None"
  by (simp add: handler_defs example_defs settled_def)

subsection \<open>C8: an exception in the handler itself\<close>

text \<open>
  C8 as stated fails: when the observer throws \<^verbatim>\<open>new Error("boom")\<close> at \<^verbatim>\<open>refreshing\<close>, the
  waiting request is rejected with that very error. No new error is made for it, and it
  wraps no cause.
\<close>

theorem interceptor_error_kind_counterexample:
  "settlements (run (example_plugin\<lparr>onStatusChange := throws_on ''refreshing''\<rparr>) example_axios
      [RequestFailed (example_failure ''/a'' 401)] initial)
   = [(0, Reject (JsError ''boom'' None))]
   \<and> statusLog (run (example_plugin\<lparr>onStatusChange := throws_on ''refreshing''\<rparr>) example_axios
      [RequestFailed (example_failure ''/a'' 401)] initial)
   = [(''refreshing'', None), (''error'', Some (JsError ''boom'' None))]"
  by (simp add: handler_defs example_defs)

text \<open>
  C8, amended. Let an exception be raised in the handler before it awaits the renewal
  while \<^verbatim>\<open>isRefreshing\<close> is true: the classifier throws for a call that arrives during a
  renewal, or, for the call that starts the renewal, the observer throws at
  \<^verbatim>\<open>refreshing\<close> or \<^verbatim>\<open>refreshTokenFn\<close> throws synchronously. If the observer returns from
  the \<^verbatim>\<open>error\<close> call, then the observer has been called with \<^verbatim>\<open>error\<close> and the exception,
  every waiting request is rejected with the exception itself, the wait set is empty, the
  flag is clear, and the call is rejected with its own error. The exception is passed on
  as it is when it is an \<^verbatim>\<open>Error\<close>; any other thrown value is replaced by
  \<^verbatim>\<open>new Error("Unknown error in refresh token interceptor")\<close>.
\<close>

theorem internal_exception_safety_net:
  assumes "onStatusChange p ''error''
             (Some (instanceofErrorOr ex ''Unknown error in refresh token interceptor'')) = None"
  shows
    "(isRefreshing c \<and> config error = Some r \<and> shouldRefreshToken p error r = Inl ex \<longrightarrow>
        onRejected p error c =
          (RejectOriginal error,
           c\<lparr> statusLog := statusLog c
                @ [(''error'',
                    Some (instanceofErrorOr ex ''Unknown error in refresh token interceptor''))],
              settlements := settlements c
                @ rejectEach (instanceofErrorOr ex ''Unknown error in refresh token interceptor'')
                    (pendingRequests c),
              pendingRequests := [],
              isRefreshing := False,
              refreshPromise := None \<rparr>))
     \<and> (\<not> isRefreshing c \<and> eligible p error
         \<and> onStatusChange p ''refreshing'' None = Some ex \<longrightarrow>
        onRejected p error c =
          (RejectOriginal
             (error\<lparr>config := Some (request (newPending (the (config error)) (promises c)))\<rparr>),
           c\<lparr> promises := Suc (promises c),
              statusLog := statusLog c
                @ [(''refreshing'', None),
                   (''error'',
                    Some (instanceofErrorOr ex ''Unknown error in refresh token interceptor''))],
              settlements := settlements c
                @ rejectEach (instanceofErrorOr ex ''Unknown error in refresh token interceptor'')
                    (pendingRequests c @ [newPending (the (config error)) (promises c)]),
              pendingRequests := [],
              isRefreshing := False,
              refreshPromise := None \<rparr>))
     \<and> (\<not> isRefreshing c \<and> eligible p error
         \<and> onStatusChange p ''refreshing'' None = None \<and> refreshTokenFn p () = Inl ex \<longrightarrow>
        onRejected p error c =
          (RejectOriginal
             (error\<lparr>config := Some (request (newPending (the (config error)) (promises c)))\<rparr>),
           c\<lparr> promises := Suc (promises c),
              refreshCalls := Suc (refreshCalls c),
              statusLog := statusLog c
                @ [(''refreshing'', None),
                   (''error'',
                    Some (instanceofErrorOr ex ''Unknown error in refresh token interceptor''))],
              settlements := settlements c
                @ rejectEach (instanceofErrorOr ex ''Unknown error in refresh token interceptor'')
                    (pendingRequests c @ [newPending (the (config error)) (promises c)]),
              pendingRequests := [],
              isRefreshing := False,
              refreshPromise := None \<rparr>))
     \<and> (\<forall>w \<in> set (pendingRequests c). isRefreshing c \<longrightarrow>
           (retryPromise w,
            Reject (instanceofErrorOr ex ''Unknown error in refresh token interceptor''))
             \<in> set (settlements (snd (interceptorCatch p error ex c))))
     \<and> instanceofErrorOr (ErrorObject e) ''Unknown error in refresh token interceptor'' = e
     \<and> instanceofErrorOr (OtherValue x) ''Unknown error in refresh token interceptor''
         = JsError ''Unknown error in refresh token interceptor'' None"
  using assms
  by (auto simp: onRejected_def eligible_def interceptorCatch_def notify_def Let_def mem_rejectEach
      split: option.splits)

text \<open>
  C8 (amended) at examples: an observer that throws at \<^verbatim>\<open>refreshing\<close>, and a classifier
  that throws a string while the renewal started for \<^verbatim>\<open>/a\<close> is pending.
\<close>

theorem internal_exception_safety_net_witness:
  "settlements (snd (onRejected (example_plugin\<lparr>onStatusChange := throws_on ''refreshing''\<rparr>)
      (example_failure ''/a'' 401) initial)) = [(0, Reject (JsError ''boom'' None))]
   \<and> \<not> isRefreshing (snd (onRejected (example_plugin\<lparr>onStatusChange := throws_on ''refreshing''\<rparr>)
      (example_failure ''/a'' 401) initial))
   \<and> settlements (snd (onRejected
        (example_plugin\<lparr>shouldRefreshToken := (\<lambda>e r. Inl (OtherValue ''broken''))\<rparr>)
        (example_failure ''/b'' 401)
        (snd (onRejected example_plugin (example_failure ''/a'' 401) initial))))
      = [(0, Reject (JsError ''Unknown error in refresh token interceptor'' None))]"
proof -
  let ?p = "example_plugin\<lparr>onStatusChange := throws_on ''refreshing''\<rparr>"
  let ?q = "example_plugin\<lparr>shouldRefreshToken := (\<lambda>e r. Inl (OtherValue ''broken''))\<rparr>"
  let ?c = "snd (onRejected example_plugin (example_failure ''/a'' 401) initial)"
  have h1: "onStatusChange ?p ''error''
      (Some (instanceofErrorOr (ErrorObject (JsError ''boom'' None))
               ''Unknown error in refresh token interceptor'')) = None"
    by (simp add: throws_on_def)
  have e1: "eligible ?p (example_failure ''/a'' 401)"
    by (simp add: eligible_def example_plugin_def example_failure_def example_request_def
        default_shouldRefreshToken_def)
  have t1: "onStatusChange ?p ''refreshing'' None = Some (ErrorObject (JsError ''boom'' None))"
    by (simp add: throws_on_def)
  have h2: "onStatusChange ?q ''error''
      (Some (instanceofErrorOr (OtherValue ''broken'')
               ''Unknown error in refresh token interceptor'')) = None"
    by (simp add: example_plugin_def default_onStatusChange_def)
  have a: "settlements (snd (onRejected ?p (example_failure ''/a'' 401) initial))
        = [(0, Reject (JsError ''boom'' None))]
      \<and> \<not> isRefreshing (snd (onRejected ?p (example_failure ''/a'' 401) initial))"
    using internal_exception_safety_net [OF h1, where c = initial
        and error = "example_failure ''/a'' 401" and r = "example_request ''/a''"
        and e = "JsError ''x'' None" and x = "''y''"] e1 t1
    by (simp add: initial_def newPending_def example_config)
  have b: "settlements (snd (onRejected ?q (example_failure ''/b'' 401) ?c))
      = [(0, Reject (JsError ''Unknown error in refresh token interceptor'' None))]"
    using internal_exception_safety_net [OF h2, where c = ?c
        and error = "example_failure ''/b'' 401" and r = "example_request ''/b''"
        and e = "JsError ''x'' None" and x = "''y''"]
    by (simp add: example_initiated newPending_def example_config)
  from a b show ?thesis by simp
qed

subsection \<open>C9: every waiting request is settled exactly once\<close>

text \<open>
  C9 fails on the code. Two requests wait, the renewal rejects, and the observer throws
  when it is called with \<^verbatim>\<open>failed\<close>: the exception leaves the inner \<^verbatim>\<open>catch\<close> before its
  loop, the \<^verbatim>\<open>finally\<close> clears the flag, and the outer \<^verbatim>\<open>catch\<close> then skips its own loop
  because the flag is clear. Neither request is rejected and both stay in the wait set,
  with no renewal in progress and no handler left to settle them.

  With an observer that throws on every call, the first failure sets the flag, the
  exception at \<^verbatim>\<open>refreshing\<close> reaches the outer \<^verbatim>\<open>catch\<close>, and the exception at \<^verbatim>\<open>error\<close>
  leaves it before its loop and its reset: the flag stays set although no renewal was
  invoked and no handler is suspended, so the second request waits for nothing.
\<close>

theorem failed_observer_leaves_requests_unsettled:
  "settlements (run (example_plugin\<lparr>onStatusChange := throws_on ''failed''\<rparr>) example_axios
      [RequestFailed (example_failure ''/a'' 401), RequestFailed (example_failure ''/b'' 401),
       RenewalRejected 0 (ErrorObject (JsError ''invalid_grant'' None))] initial) = []
   \<and> map retryPromise (pendingRequests (run (example_plugin\<lparr>onStatusChange := throws_on ''failed''\<rparr>) example_axios
      [RequestFailed (example_failure ''/a'' 401), RequestFailed (example_failure ''/b'' 401),
       RenewalRejected 0 (ErrorObject (JsError ''invalid_grant'' None))] initial)) = [0, 1]
   \<and> isRefreshing (run (example_plugin\<lparr>onStatusChange := throws_on ''failed''\<rparr>) example_axios
      [RequestFailed (example_failure ''/a'' 401), RequestFailed (example_failure ''/b'' 401),
       RenewalRejected 0 (ErrorObject (JsError ''invalid_grant'' None))] initial) = False
   \<and> awaiting (run (example_plugin\<lparr>onStatusChange := throws_on ''failed''\<rparr>) example_axios
      [RequestFailed (example_failure ''/a'' 401), RequestFailed (example_failure ''/b'' 401),
       RenewalRejected 0 (ErrorObject (JsError ''invalid_grant'' None))] initial) = []
   \<and> settlements (run (example_plugin\<lparr>onStatusChange := throws_always\<rparr>) example_axios
      [RequestFailed (example_failure ''/a'' 401), RequestFailed (example_failure ''/b'' 401)]
      initial) = []
   \<and> map retryPromise (pendingRequests (run (example_plugin\<lparr>onStatusChange := throws_always\<rparr>) example_axios
      [RequestFailed (example_failure ''/a'' 401), RequestFailed (example_failure ''/b'' 401)]
      initial)) = [0, 1]
   \<and> isRefreshing (run (example_plugin\<lparr>onStatusChange := throws_always\<rparr>) example_axios
      [RequestFailed (example_failure ''/a'' 401), RequestFailed (example_failure ''/b'' 401)]
      initial) = True
   \<and> refreshCalls (run (example_plugin\<lparr>onStatusChange := throws_always\<rparr>) example_axios
      [RequestFailed (example_failure ''/a'' 401), RequestFailed (example_failure ''/b'' 401)]
      initial) = 0
   \<and> awaiting (run (example_plugin\<lparr>onStatusChange := throws_always\<rparr>) example_axios
      [RequestFailed (example_failure ''/a'' 401), RequestFailed (example_failure ''/b'' 401)]
      initial) = []"
  by (simp add: handler_defs example_defs)

subsection \<open>C10: the two required options\<close>

text \<open>
  C10. \<^verbatim>\<open>createRefreshTokenPlugin\<close> throws \<^verbatim>\<open>refreshTokenFn must be a function\<close> when
  \<^verbatim>\<open>refreshTokenFn\<close> is not a function; it throws \<^verbatim>\<open>getAuthToken must be a function\<close> when
  \<^verbatim>\<open>refreshTokenFn\<close> is a function and \<^verbatim>\<open>getAuthToken\<close> is not; it returns the plugin exactly
  when both are functions, and then the state is the initial one. When it throws, there
  is no state and nothing to install.
\<close>

theorem constructor_validation:
  "((\<forall>f. options_refreshTokenFn opts \<noteq> JsFunction f) \<longrightarrow>
      createRefreshTokenPlugin opts = Inl (JsError ''refreshTokenFn must be a function'' None))
   \<and> ((\<exists>f. options_refreshTokenFn opts = JsFunction f)
        \<and> (\<forall>g. options_getAuthToken opts \<noteq> JsFunction g) \<longrightarrow>
      createRefreshTokenPlugin opts = Inl (JsError ''getAuthToken must be a function'' None))
   \<and> ((\<exists>p c. createRefreshTokenPlugin opts = Inr (p, c)) =
        ((\<exists>f. options_refreshTokenFn opts = JsFunction f)
         \<and> (\<exists>g. options_getAuthToken opts = JsFunction g)))
   \<and> (\<forall>p c. createRefreshTokenPlugin opts = Inr (p, c) \<longrightarrow> c = initial)"
  by (cases "options_refreshTokenFn opts"; cases "options_getAuthToken opts")
     (simp_all add: createRefreshTokenPlugin_def)

text \<open>C10 at examples: a string, \<^verbatim>\<open>null\<close>, and two functions.\<close>

theorem constructor_validation_witness:
  "createRefreshTokenPlugin (example_options\<lparr>options_refreshTokenFn := JsString ''token''\<rparr>)
     = Inl (JsError ''refreshTokenFn must be a function'' None)
   \<and> createRefreshTokenPlugin (example_options\<lparr>options_getAuthToken := JsNull\<rparr>)
     = Inl (JsError ''getAuthToken must be a function'' None)
   \<and> (\<exists>p. createRefreshTokenPlugin example_options = Inr (p, initial))"
  using
    constructor_validation [of "example_options\<lparr>options_refreshTokenFn := JsString ''token''\<rparr>"]
    constructor_validation [of "example_options\<lparr>options_getAuthToken := JsNull\<rparr>"]
    constructor_validation [of example_options]
  by (simp add: example_options_def) blast

end
